theory Spec2Isabelle
  imports Main "HOL-Library.Word" "HOL-Library.Sublist"
begin

section \<open>The command-line orchestrator of the realtime feeds\<close>

text \<open>
  The development follows \<^verbatim>\<open>warsawgtfs_realtime.go\<close> function by function.
  The parsed command-line flags (package-level pointers in the source, read as
  \<^verbatim>\<open>*flagAlerts\<close> and so on) are the fields of one record; the field
  \<^verbatim>\<open>flagPostions\<close> keeps the spelling of the source.  A \<^verbatim>\<open>time.Duration\<close> is a signed
  64-bit count of nanoseconds.  A Go \<^verbatim>\<open>error\<close> is its message, and a \<^verbatim>\<open>nil\<close> error is
  \<open>None\<close>.
\<close>

subsection \<open>Flags\<close>

type_synonym Duration = "64 word"

type_synonym error = string

record flags =
  flagAlerts :: bool
  flagBrigades :: bool
  flagPostions :: bool
  flagApikey :: string
  flagGtfsFile :: string
  flagBrigadesFile :: string
  flagTarget :: string
  flagJSON :: bool
  flagReadable :: bool
  flagStrict :: bool
  flagLoop :: Duration
  flagDataCheck :: Duration

text \<open>The values the flags have when the command line sets none of them.\<close>

definition default_flags :: flags where
  "default_flags =
     \<lparr>flagAlerts = False, flagBrigades = False, flagPostions = False,
      flagApikey = [],
      flagGtfsFile = ''https://mkuran.pl/gtfs/warsaw.zip'',
      flagBrigadesFile = ''https://mkuran.pl/gtfs/warsaw/brigades.json'',
      flagTarget = ''data_rt'',
      flagJSON = False, flagReadable = False, flagStrict = False,
      flagLoop = 0,
      flagDataCheck = 30 * 60 * 1000000000\<rparr>"

subsection \<open>Library functions the program calls\<close>

text \<open>
  \<^verbatim>\<open>strings.HasPrefix\<close>: the string is at least as long as the prefix and its first
  bytes are the prefix.
\<close>

definition HasPrefix :: "string \<Rightarrow> string \<Rightarrow> bool" where
  "HasPrefix s pre = (length pre \<le> length s \<and> take (length pre) s = pre)"

text \<open>
  \<^verbatim>\<open>path.Join\<close> and \<^verbatim>\<open>path.Clean\<close> of the Go standard library.  \<^verbatim>\<open>Clean\<close> reads
  the path from left to right and writes the cleaned path into a buffer; \<open>out\<close> is
  the part of the buffer written so far (\<^verbatim>\<open>buf[:w]\<close>), the string argument of the
  loop is the part of the path not read yet (\<^verbatim>\<open>path[r:]\<close>), and \<open>dotdot\<close> is the
  index below which a \<^verbatim>\<open>..\<close> element must not remove anything.

  \<open>backtrack\<close> is the inner loop
  \<^verbatim>\<open>for out.w > dotdot && out.index(out.w) != '/' { out.w-- }\<close>, on the write index.
\<close>

function backtrack :: "string \<Rightarrow> nat \<Rightarrow> nat \<Rightarrow> nat" where
  "backtrack out dotdot w =
     (if dotdot < w \<and> out ! w \<noteq> CHR ''/'' then backtrack out dotdot (w - 1) else w)"
  by pat_completeness auto
termination
  by (relation "measure (\<lambda>(out, dotdot, w). w)") auto

declare backtrack.simps [simp del]

function Clean_loop :: "bool \<Rightarrow> string \<Rightarrow> nat \<Rightarrow> string \<Rightarrow> string" where
  "Clean_loop rooted [] dotdot out = out"
| "Clean_loop rooted (c # rest) dotdot out =
     (if c = CHR ''/'' then
        \<comment> \<open>empty path element\<close>
        Clean_loop rooted rest dotdot out
      else if c = CHR ''.'' \<and> (rest = [] \<or> hd rest = CHR ''/'') then
        \<comment> \<open>. element\<close>
        Clean_loop rooted rest dotdot out
      else if c = CHR ''.'' \<and> hd rest = CHR ''.'' \<and> (tl rest = [] \<or> hd (tl rest) = CHR ''/'') then
        \<comment> \<open>.. element: remove to last /\<close>
        (if dotdot < length out then
           Clean_loop rooted (tl rest) dotdot (take (backtrack out dotdot (length out - 1)) out)
         else if \<not> rooted then
           (let out' = (if 0 < length out then out @ ''/'' else out) @ ''..''
            in Clean_loop rooted (tl rest) (length out') out')
         else Clean_loop rooted (tl rest) dotdot out)
      else
        \<comment> \<open>real path element: add slash if needed, copy element\<close>
        (let out' = (if rooted \<and> length out \<noteq> 1 \<or> \<not> rooted \<and> length out \<noteq> 0
                     then out @ ''/'' else out)
         in Clean_loop rooted (dropWhile (\<lambda>b. b \<noteq> CHR ''/'') (c # rest)) dotdot
              (out' @ takeWhile (\<lambda>b. b \<noteq> CHR ''/'') (c # rest))))"
  by pat_completeness auto
termination
  by (relation "measure (\<lambda>(rooted, path, dotdot, out). length path)")
     (simp_all add: less_Suc_eq_le length_dropWhile_le)

definition path_Clean :: "string \<Rightarrow> string" where
  "path_Clean path =
     (if path = [] then ''.''
      else
        (let rooted = (hd path = CHR ''/'');
             out = (if rooted then Clean_loop rooted (tl path) 1 ''/''
                    else Clean_loop rooted path 0 [])
         in if length out = 0 then ''.'' else out))"

text \<open>The loop of \<^verbatim>\<open>Join\<close> that writes the non-empty elements, separated by slashes.\<close>

fun Join_buf :: "string \<Rightarrow> string list \<Rightarrow> string" where
  "Join_buf buf [] = buf"
| "Join_buf buf (e # elem) =
     (if 0 < length buf \<or> e \<noteq> [] then
        Join_buf ((if 0 < length buf then buf @ ''/'' else buf) @ e) elem
      else Join_buf buf elem)"

definition path_Join :: "string list \<Rightarrow> string" where
  "path_Join elem =
     (if sum_list (map length elem) = 0 then [] else path_Clean (Join_buf [] elem))"

text \<open>
  A file name in the sense of one path element: not empty, without a slash, and
  neither of the two special elements.
\<close>

definition proper_name :: "string \<Rightarrow> bool" where
  "proper_name name = (name \<noteq> [] \<and> CHR ''/'' \<notin> set name \<and> name \<noteq> ''.'' \<and> name \<noteq> ''..'')"

subsection \<open>checkModes\<close>

text \<open>The counter is a \<^verbatim>\<open>uint8\<close>, incremented once for each mode flag that is set.\<close>

definition checkModes :: "flags \<Rightarrow> error option" where
  "checkModes f =
     (let modeCount = (0 :: 8 word);
          modeCount = (if flagAlerts f then modeCount + 1 else modeCount);
          modeCount = (if flagBrigades f then modeCount + 1 else modeCount);
          modeCount = (if flagPostions f then modeCount + 1 else modeCount)
      in if modeCount \<noteq> 1
         then Some ''exactly one of the -a, -b or -p flags has to be provided''
         else None)"

subsection \<open>Options of the generation packages\<close>

text \<open>
  The option structures of the packages \<^verbatim>\<open>alerts\<close>, \<^verbatim>\<open>brigades\<close> and \<^verbatim>\<open>positions\<close>,
  with the fields the program sets.  A field a struct literal leaves out has Go's
  zero value: the empty string for \<^verbatim>\<open>JSONTarget\<close>.
\<close>

record alerts_Options =
  GtfsRtTarget :: string
  JSONTarget :: string
  HumanReadable :: bool
  ThrowLinkErrors :: bool

record brigades_Options =
  JSONTarget :: string
  Apikey :: string
  ThrowAPIErrors :: bool

record positions_Options =
  GtfsRtTarget :: string
  JSONTarget :: string
  HumanReadable :: bool
  Apikey :: string
  Brigades :: string

text \<open>
  \<^verbatim>\<open>util.Resource\<close> is an interface with two implementations; the program fills in
  the location and the recheck period (the field is spelled \<^verbatim>\<open>Peroid\<close> in the
  source).  The shared HTTP client is one fixed object and is left out.
\<close>

datatype Resource =
    ResourceHTTP (URL: string) (Peroid: Duration)
  | ResourceLocal (Path: string) (Peroid: Duration)

subsection \<open>State, effects and collaborators\<close>

text \<open>
  The program's only mutable variable is the global \<^verbatim>\<open>gtfsFile\<close>, a pointer that is
  \<^verbatim>\<open>nil\<close> (\<open>None\<close>) until \<^verbatim>\<open>loadGtfs\<close> assigns it; the value of type \<open>'g\<close> stands
  for the pointer together with the data it points to.  Everything the program does
  to the outside is recorded, in order, in a trace: each line it logs and each call
  into a collaborating package.
\<close>

datatype event =
    Log_Println string
  | Call_NewGtfsFromURL string
  | Call_NewGtfsFromFile string
  | Call_GetZipFileByName string
  | Call_LoadRoutes
  | Call_LoadAll
  | Call_alerts_Make alerts_Options
  | Call_alerts_Loop Resource Duration alerts_Options
  | Call_brigades_Main brigades_Options
  | Call_positions_Main positions_Options

record 'g state =
  gtfsFile :: "'g option"
  trace :: "event list"

definition emit :: "event \<Rightarrow> 'g state \<Rightarrow> 'g state" where
  "emit e s = s\<lparr>trace := trace s @ [e]\<rparr>"

text \<open>
  The collaborating packages are not part of the program; what they answer is a
  parameter.  A method with a pointer receiver takes the handle (possibly \<^verbatim>\<open>nil\<close>)
  and, where it loads data into the object, gives the handle back with its error.
  \<^verbatim>\<open>alerts.Loop\<close> repeats until something fails, so it may never return: its answer
  is \<open>None\<close> then, and \<open>Some err\<close> when it returns \<open>err\<close>.
\<close>

record ('g, 'z, 'r) collaborators =
  NewGtfsFromURL :: "string \<Rightarrow> 'g option \<times> error option"
  NewGtfsFromFile :: "string \<Rightarrow> 'g option \<times> error option"
  GetZipFileByName :: "'g option \<Rightarrow> string \<Rightarrow> 'z option"
  LoadRoutes :: "'g option \<Rightarrow> 'z \<Rightarrow> 'g option \<times> error option"
  LoadAll :: "'g option \<Rightarrow> 'g option \<times> error option"
  Routes :: "'g \<Rightarrow> 'r"
  alerts_Make :: "'r \<Rightarrow> alerts_Options \<Rightarrow> error option"
  alerts_Loop :: "Resource \<Rightarrow> Duration \<Rightarrow> alerts_Options \<Rightarrow> error option option"
  brigades_Main :: "'g option \<Rightarrow> brigades_Options \<Rightarrow> error option"
  positions_Main :: "positions_Options \<Rightarrow> error option"

text \<open>
  How a function of the program ends: it returns an error value (\<open>None\<close> is \<^verbatim>\<open>nil\<close>),
  it panics (a field read through a \<^verbatim>\<open>nil\<close> pointer), or it never returns.
\<close>

datatype ret = Returns "error option" | Panics | Never_returns

subsection \<open>loadGtfs\<close>

text \<open>
  The test the program makes on a location, in \<^verbatim>\<open>loadGtfs\<close> and again in
  \<^verbatim>\<open>loopAlerts\<close>, written out at both places as in the source; the abbreviation
  only shortens the statements about it.
\<close>

abbreviation network_addressed :: "string \<Rightarrow> bool" where
  "network_addressed l \<equiv> HasPrefix l ''http://'' \<or> HasPrefix l ''https://''"

definition loadGtfs ::
  "('g, 'z, 'r) collaborators \<Rightarrow> flags \<Rightarrow> 'g state \<Rightarrow> error option \<times> 'g state"
where
  "loadGtfs env f s =
     (let s = emit (Log_Println ''Retrieving provided GTFS'') s;
          (err, s) =
            (if HasPrefix (flagGtfsFile f) ''http://'' \<or> HasPrefix (flagGtfsFile f) ''https://''
             then (let (g, err) = NewGtfsFromURL env (flagGtfsFile f)
                   in (err, (emit (Call_NewGtfsFromURL (flagGtfsFile f)) s)\<lparr>gtfsFile := g\<rparr>))
             else (let (g, err) = NewGtfsFromFile env (flagGtfsFile f)
                   in (err, (emit (Call_NewGtfsFromFile (flagGtfsFile f)) s)\<lparr>gtfsFile := g\<rparr>)))
      in if err \<noteq> None then (err, s)
         else if flagAlerts f then
           (let s = emit (Log_Println ''Loading routes.txt'') s;
                s = emit (Call_GetZipFileByName ''routes.txt'') s
            in case GetZipFileByName env (gtfsFile s) ''routes.txt'' of
                 Some routesFile \<Rightarrow>
                   (let (g', err) = LoadRoutes env (gtfsFile s) routesFile
                    in (err, emit Call_LoadRoutes (s\<lparr>gtfsFile := g'\<rparr>)))
               | None \<Rightarrow> (Some ''no file routes.txt in the GTFS'', s))
         else
           (let s = emit (Log_Println ''Loading data from the GTFS'') s;
                (g', err) = LoadAll env (gtfsFile s)
            in (err, emit Call_LoadAll (s\<lparr>gtfsFile := g'\<rparr>))))"

subsection \<open>The option builders and the entry points of the modes\<close>

text \<open>
  Each entry point first fills in its options structure, and \<^verbatim>\<open>loopAlerts\<close> the
  resource as well; what it builds is given a name of its own here, so that it can be
  spoken about.
\<close>

definition mainAlerts_opts :: "flags \<Rightarrow> alerts_Options" where
  "mainAlerts_opts f =
     (let opts = \<lparr>alerts_Options.GtfsRtTarget = path_Join [flagTarget f, ''alerts.pb''],
                  alerts_Options.JSONTarget = [],
                  alerts_Options.HumanReadable = flagReadable f,
                  ThrowLinkErrors = flagStrict f\<rparr>
      in if flagJSON f
         then opts\<lparr>alerts_Options.JSONTarget := path_Join [flagTarget f, ''alerts.json'']\<rparr>
         else opts)"

definition mainAlerts ::
  "('g, 'z, 'r) collaborators \<Rightarrow> flags \<Rightarrow> 'g state \<Rightarrow> ret \<times> 'g state"
where
  "mainAlerts env f s =
     (let opts = mainAlerts_opts f;
          s = emit (Log_Println ''Creating Alerts feed'') s
      in case gtfsFile s of
           None \<Rightarrow> (Panics, s)
         | Some g \<Rightarrow> (Returns (alerts_Make env (Routes env g) opts), emit (Call_alerts_Make opts) s))"

definition loopAlerts_opts :: "flags \<Rightarrow> alerts_Options" where
  "loopAlerts_opts f =
     (let opts = \<lparr>alerts_Options.GtfsRtTarget = path_Join [flagTarget f, ''alerts.pb''],
                  alerts_Options.JSONTarget = [],
                  alerts_Options.HumanReadable = flagReadable f,
                  ThrowLinkErrors = flagStrict f\<rparr>
      in if flagJSON f
         then opts\<lparr>alerts_Options.JSONTarget := path_Join [flagTarget f, ''alerts.json'']\<rparr>
         else opts)"

definition loopAlerts_resource :: "flags \<Rightarrow> Resource" where
  "loopAlerts_resource f =
     (if HasPrefix (flagGtfsFile f) ''http://'' \<or> HasPrefix (flagGtfsFile f) ''https://''
      then ResourceHTTP (flagGtfsFile f) (flagDataCheck f)
      else ResourceLocal (flagGtfsFile f) (flagDataCheck f))"

definition loopAlerts ::
  "('g, 'z, 'r) collaborators \<Rightarrow> flags \<Rightarrow> 'g state \<Rightarrow> ret \<times> 'g state"
where
  "loopAlerts env f s =
     (let opts = loopAlerts_opts f;
          gtfsResource = loopAlerts_resource f
      in (case alerts_Loop env gtfsResource (flagLoop f) opts of
            None \<Rightarrow> Never_returns
          | Some err \<Rightarrow> Returns err,
          emit (Call_alerts_Loop gtfsResource (flagLoop f) opts) s))"

definition mainBrigades_opts :: "flags \<Rightarrow> brigades_Options" where
  "mainBrigades_opts f =
     \<lparr>brigades_Options.JSONTarget = path_Join [flagTarget f, ''brigades.json''],
      brigades_Options.Apikey = flagApikey f,
      ThrowAPIErrors = flagStrict f\<rparr>"

definition mainBrigades ::
  "('g, 'z, 'r) collaborators \<Rightarrow> flags \<Rightarrow> 'g state \<Rightarrow> ret \<times> 'g state"
where
  "mainBrigades env f s =
     (if flagApikey f = [] then
        (Returns (Some ''Key for api.um.warszawa.pl needs to be provided''), s)
      else
        (let opts = mainBrigades_opts f;
             s = emit (Log_Println ''Creating brigades.json'') s
         in (Returns (brigades_Main env (gtfsFile s) opts), emit (Call_brigades_Main opts) s)))"

definition mainPositions_opts :: "flags \<Rightarrow> positions_Options" where
  "mainPositions_opts f =
     (let opts = \<lparr>positions_Options.GtfsRtTarget = path_Join [flagTarget f, ''positions.pb''],
                  positions_Options.JSONTarget = [],
                  positions_Options.HumanReadable = flagReadable f,
                  positions_Options.Apikey = flagApikey f,
                  Brigades = flagBrigadesFile f\<rparr>
      in if flagJSON f
         then opts\<lparr>positions_Options.JSONTarget := path_Join [flagTarget f, ''positions.json'']\<rparr>
         else opts)"

text \<open>The line \<^verbatim>\<open>mainPositions\<close> logs names the brigades file, as in the source.\<close>

definition mainPositions ::
  "('g, 'z, 'r) collaborators \<Rightarrow> flags \<Rightarrow> 'g state \<Rightarrow> ret \<times> 'g state"
where
  "mainPositions env f s =
     (if flagApikey f = [] then
        (Returns (Some ''Key for api.um.warszawa.pl needs to be provided''), s)
      else
        (let opts = mainPositions_opts f;
             s = emit (Log_Println ''Creating brigades.json'') s
         in (Returns (positions_Main env opts), emit (Call_positions_Main opts) s)))"

subsection \<open>main\<close>

text \<open>
  How the process ends: \<^verbatim>\<open>main\<close> returns (exit status 0); \<^verbatim>\<open>log.Fatalln\<close> writes the
  error's message and exits with status 1; a panic; or the process runs until it is
  stopped from outside.
\<close>

datatype exit = Exits_normally | Fatal error | Crashes | Runs_forever

definition main ::
  "('g, 'z, 'r) collaborators \<Rightarrow> flags \<Rightarrow> 'g state \<Rightarrow> exit \<times> 'g state"
where
  "main env f s =
     (let loopMode = (0 <s flagLoop f) in
      case checkModes f of
        Some e \<Rightarrow> (Fatal e, s)
      | None \<Rightarrow>
          (case (if \<not> flagPostions f \<and> \<not> loopMode then loadGtfs env f s else (None, s)) of
             (Some e, s) \<Rightarrow> (Fatal e, s)
           | (None, s) \<Rightarrow>
               (case (if flagAlerts f \<and> loopMode then loopAlerts env f s
                      else if flagAlerts f then mainAlerts env f s
                      else if loopMode then
                        (Returns (Some ''loop mode is only available for alerts''), s)
                      else if flagBrigades f then mainBrigades env f s
                      else if flagPostions f then mainPositions env f s
                      else (Returns None, s)) of
                  (Returns None, s) \<Rightarrow> (Exits_normally, s)
                | (Returns (Some e), s) \<Rightarrow> (Fatal e, s)
                | (Panics, s) \<Rightarrow> (Crashes, s)
                | (Never_returns, s) \<Rightarrow> (Runs_forever, s))))"

text \<open>The calls that fetch, open or load the static dataset.\<close>

fun is_dataset_call :: "event \<Rightarrow> bool" where
  "is_dataset_call (Call_NewGtfsFromURL url) = True"
| "is_dataset_call (Call_NewGtfsFromFile p) = True"
| "is_dataset_call (Call_GetZipFileByName name) = True"
| "is_dataset_call Call_LoadRoutes = True"
| "is_dataset_call Call_LoadAll = True"
| "is_dataset_call e = False"

text \<open>The two calls that retrieve the dataset container.\<close>

fun is_retrieval_call :: "event \<Rightarrow> bool" where
  "is_retrieval_call (Call_NewGtfsFromURL url) = True"
| "is_retrieval_call (Call_NewGtfsFromFile p) = True"
| "is_retrieval_call e = False"

section \<open>The loop driver\<close>

text \<open>
  Modelled from the spec: the loop driver behind \<^verbatim>\<open>alerts.Loop\<close>, whose code is not
  part of the program file (\<^verbatim>\<open>loopAlerts\<close> only calls it).  The specification gives
  its state machine,
  \<^verbatim>\<open>Idle -> Checking -> (Unchanged -> Sleeping -> Checking) | (Changed -> Regenerating -> Sleeping -> Checking)\<close>,
  with a terminal state reached only on an unrecoverable failure: a failed full
  fetch always, a failed probe when the strict flag is set (it counts as unchanged
  otherwise), and a failed regeneration when the strict flag is set or when the
  chosen policy for the non-strict case is to stop.  What the resource answers at
  each cycle's check and whether each cycle's regeneration succeeds are parameters.
\<close>

datatype phase = Idle | Checking | Unchanged | Changed | Regenerating | Sleeping | Terminated

datatype check_result = Content_unchanged | Content_changed | Probe_failed | Fetch_failed

datatype loop_event =
    Check_begins nat
  | Check_ends nat
  | Regeneration_begins nat
  | Regeneration_ends nat

record driver =
  phase :: phase
  cycle :: nat
  history :: "loop_event list"

record loop_world =
  strict :: bool
  stop_on_failure :: bool
  check :: "nat \<Rightarrow> check_result"
  regenerates :: "nat \<Rightarrow> bool"

definition record_event :: "loop_event \<Rightarrow> driver \<Rightarrow> driver" where
  "record_event e d = d\<lparr>history := history d @ [e]\<rparr>"

definition driver_start :: driver where
  "driver_start = \<lparr>phase = Idle, cycle = 0, history = []\<rparr>"

text \<open>
  Modelled from the spec: one transition of the loop driver's state machine
  (\<^verbatim>\<open>alerts.Loop\<close> itself is missing).  A check and a regeneration each record
  when they begin and when they end.
\<close>

definition driver_step :: "loop_world \<Rightarrow> driver \<Rightarrow> driver" where
  "driver_step w d =
     (case phase d of
        Idle \<Rightarrow> record_event (Check_begins (cycle d)) (d\<lparr>phase := Checking\<rparr>)
      | Checking \<Rightarrow>
          record_event (Check_ends (cycle d))
            (case check w (cycle d) of
               Content_unchanged \<Rightarrow> d\<lparr>phase := Unchanged\<rparr>
             | Content_changed \<Rightarrow> d\<lparr>phase := Changed\<rparr>
             | Probe_failed \<Rightarrow> if strict w then d\<lparr>phase := Terminated\<rparr> else d\<lparr>phase := Unchanged\<rparr>
             | Fetch_failed \<Rightarrow> d\<lparr>phase := Terminated\<rparr>)
      | Unchanged \<Rightarrow> d\<lparr>phase := Sleeping\<rparr>
      | Changed \<Rightarrow> record_event (Regeneration_begins (cycle d)) (d\<lparr>phase := Regenerating\<rparr>)
      | Regenerating \<Rightarrow>
          record_event (Regeneration_ends (cycle d))
            (if regenerates w (cycle d) then d\<lparr>phase := Sleeping\<rparr>
             else if strict w \<or> stop_on_failure w then d\<lparr>phase := Terminated\<rparr>
             else d\<lparr>phase := Sleeping\<rparr>)
      | Sleeping \<Rightarrow>
          record_event (Check_begins (Suc (cycle d))) (d\<lparr>phase := Checking, cycle := Suc (cycle d)\<rparr>)
      | Terminated \<Rightarrow> d)"

text \<open>The loop has no natural end; \<open>driver_run n\<close> is the driver after \<open>n\<close> steps.\<close>

fun driver_run :: "loop_world \<Rightarrow> nat \<Rightarrow> driver \<Rightarrow> driver" where
  "driver_run w 0 d = d"
| "driver_run w (Suc n) d = driver_run w n (driver_step w d)"

text \<open>
  Modelled from the spec: the instrumented observer of the specification's test
  of the loop driver (\<^verbatim>\<open>alerts.Loop\<close> itself is missing).  It reads the recorded
  cycle boundaries in order and remembers whether an operation is open.  An
  operation that begins while another is open, an end that matches no open
  operation, a regeneration outside the cycle whose check has just ended, and a check
  that is not the next cycle's are violations.
\<close>

datatype monitor = Fresh | Quiet nat | In_check nat | In_regeneration nat | Violated

fun observe :: "monitor \<Rightarrow> loop_event \<Rightarrow> monitor" where
  "observe Fresh (Check_begins n) = (if n = 0 then In_check n else Violated)"
| "observe (Quiet m) (Check_begins n) = (if n = Suc m then In_check n else Violated)"
| "observe (In_check m) (Check_ends n) = (if n = m then Quiet m else Violated)"
| "observe (Quiet m) (Regeneration_begins n) = (if n = m then In_regeneration n else Violated)"
| "observe (In_regeneration m) (Regeneration_ends n) = (if n = m then Quiet m else Violated)"
| "observe _ _ = Violated"

definition monitor_of :: "loop_event list \<Rightarrow> monitor" where
  "monitor_of h = foldl observe Fresh h"

text \<open>What the observer has seen when the driver is in a given phase of a given cycle.\<close>

fun expected_monitor :: "phase \<Rightarrow> nat \<Rightarrow> monitor" where
  "expected_monitor Idle n = Fresh"
| "expected_monitor Checking n = In_check n"
| "expected_monitor Regenerating n = In_regeneration n"
| "expected_monitor p n = Quiet n"

section \<open>Example configurations and collaborators\<close>

text \<open>
  Concrete collaborators for running the program on examples.  A dataset handle is
  the list of the tables loaded so far; the remote archive holds \<^verbatim>\<open>routes.txt\<close>
  exactly when \<open>has_routes\<close>; no local file exists; every generation succeeds and the
  alerts loop never returns.
\<close>

definition example_collaborators :: "bool \<Rightarrow> (string list, string, string list) collaborators" where
  "example_collaborators has_routes =
     \<lparr>NewGtfsFromURL = (\<lambda>url. (Some [], None)),
      NewGtfsFromFile = (\<lambda>p. (None, Some ''open: no such file or directory'')),
      GetZipFileByName = (\<lambda>g name. if has_routes \<and> name = ''routes.txt'' then Some name else None),
      LoadRoutes = (\<lambda>g file. (map_option (\<lambda>tables. tables @ [file]) g, None)),
      LoadAll = (\<lambda>g. (map_option (\<lambda>tables. tables @ [''routes.txt'', ''trips.txt'']) g, None)),
      Routes = (\<lambda>tables. filter (\<lambda>t. t = ''routes.txt'') tables),
      alerts_Make = (\<lambda>routes opts. None),
      alerts_Loop = (\<lambda>resource period opts. None),
      brigades_Main = (\<lambda>g opts. None),
      positions_Main = (\<lambda>opts. None)\<rparr>"

definition start_state :: "string list state" where
  "start_state = \<lparr>gtfsFile = None, trace = []\<rparr>"

definition example_world :: loop_world where
  "example_world =
     \<lparr>strict = False, stop_on_failure = False,
      check = (\<lambda>n. if n = 1 then Content_changed else Content_unchanged),
      regenerates = (\<lambda>n. True)\<rparr>"

section \<open>Properties\<close>

subsection \<open>Auxiliary facts\<close>

lemma checkModes_cases:
  "checkModes f =
     (if (flagAlerts f \<and> \<not> flagBrigades f \<and> \<not> flagPostions f)
         \<or> (\<not> flagAlerts f \<and> flagBrigades f \<and> \<not> flagPostions f)
         \<or> (\<not> flagAlerts f \<and> \<not> flagBrigades f \<and> flagPostions f)
      then None
      else Some ''exactly one of the -a, -b or -p flags has to be provided'')"
  by (simp add: checkModes_def)

text \<open>
  \<^verbatim>\<open>strings.HasPrefix\<close> is the prefix order of lists, with the arguments swapped.
\<close>

lemma HasPrefix_iff_prefix: "HasPrefix s pre = prefix pre s"
proof
  assume "HasPrefix s pre"
  then have "take (length pre) s = pre" by (simp add: HasPrefix_def)
  then have "s = pre @ drop (length pre) s" by (metis append_take_drop_id)
  then show "prefix pre s" by (metis prefixI)
next
  assume "prefix pre s"
  then obtain zs where "s = pre @ zs" by (auto simp: prefix_def)
  then show "HasPrefix s pre" by (simp add: HasPrefix_def)
qed

text \<open>
  Facts about \<^verbatim>\<open>path.Clean\<close>: a file name appended after a slash is copied to the
  end of the cleaned path, after exactly one slash unless nothing or only the root
  precedes it.
\<close>

lemma takeWhile_until_slash:
  "takeWhile (\<lambda>b. b \<noteq> CHR ''/'') (xs @ CHR ''/'' # ys) = takeWhile (\<lambda>b. b \<noteq> CHR ''/'') xs"
  by (induction xs) simp_all

lemma dropWhile_until_slash:
  "dropWhile (\<lambda>b. b \<noteq> CHR ''/'') (xs @ CHR ''/'' # ys) = dropWhile (\<lambda>b. b \<noteq> CHR ''/'') xs @ CHR ''/'' # ys"
  by (induction xs) simp_all

lemma Clean_loop_name:
  assumes "proper_name name"
  shows "Clean_loop rooted name dotdot out =
    (if rooted \<and> length out \<noteq> 1 \<or> \<not> rooted \<and> length out \<noteq> 0 then out @ ''/'' else out) @ name"
proof -
  obtain c rest where n: "name = c # rest" using assms by (cases name) (auto simp: proper_name_def)
  have c: "c \<noteq> CHR ''/''" and r: "CHR ''/'' \<notin> set rest" using assms n by (auto simp: proper_name_def)
  have dot: "\<not> (c = CHR ''.'' \<and> (rest = [] \<or> hd rest = CHR ''/''))"
    using assms n r by (cases rest) (auto simp: proper_name_def)
  have dotdot: "\<not> (c = CHR ''.'' \<and> hd rest = CHR ''.'' \<and> (tl rest = [] \<or> hd (tl rest) = CHR ''/''))"
  proof (cases rest)
    case Nil
    with dot show ?thesis by simp
  next
    case (Cons b rest')
    with assms n r show ?thesis by (cases rest') (auto simp: proper_name_def)
  qed
  have t: "takeWhile (\<lambda>b. b \<noteq> CHR ''/'') (c # rest) = c # rest"
    using c r by (auto simp add: takeWhile_eq_all_conv)
  have d: "dropWhile (\<lambda>b. b \<noteq> CHR ''/'') (c # rest) = []"
    using c r by (auto simp add: dropWhile_eq_Nil_conv)
  show ?thesis
    unfolding n
    apply (subst Clean_loop.simps)
    using c dot dotdot apply (simp only: if_False t d Let_def Clean_loop.simps(1))
    done
qed

lemma Clean_loop_append_name:
  assumes "proper_name name"
  shows "Clean_loop rooted (p @ CHR ''/'' # name) dotdot out =
    (let out' = Clean_loop rooted p dotdot out
     in (if rooted \<and> length out' \<noteq> 1 \<or> \<not> rooted \<and> length out' \<noteq> 0 then out' @ ''/'' else out') @ name)"
proof (induction rooted p dotdot out rule: Clean_loop.induct)
  case (1 rooted dotdot out)
  show ?case by (simp add: Clean_loop_name [OF assms])
next
  case (2 rooted c rest dotdot out)
  let ?rest' = "rest @ CHR ''/'' # name"
  have unfold: "Clean_loop rooted ((c # rest) @ CHR ''/'' # name) dotdot out
      = Clean_loop rooted (c # ?rest') dotdot out" by simp
  have e2: "(?rest' = [] \<or> hd ?rest' = CHR ''/'') = (rest = [] \<or> hd rest = CHR ''/'')"
    by (cases rest) simp_all
  show ?case
  proof (cases "c = CHR ''/''")
    case True
    with "2.IH"(1) show ?thesis by simp
  next
    case slash: False
    show ?thesis
    proof (cases "c = CHR ''.'' \<and> (rest = [] \<or> hd rest = CHR ''/'')")
      case True
      with slash "2.IH"(2) e2 show ?thesis by simp
    next
      case dot: False
      show ?thesis
      proof (cases "c = CHR ''.'' \<and> hd rest = CHR ''.'' \<and> (tl rest = [] \<or> hd (tl rest) = CHR ''/'')")
        case True
        with dot obtain b rest2 where r: "rest = b # rest2" by (cases rest) auto
        have e3: "(tl ?rest' = [] \<or> hd (tl ?rest') = CHR ''/'') = (tl rest = [] \<or> hd (tl rest) = CHR ''/'')"
          unfolding r by (cases rest2) simp_all
        have t: "tl ?rest' = tl rest @ CHR ''/'' # name" unfolding r by simp
        have h: "hd ?rest' = hd rest" unfolding r by simp
        have cond': "(c = CHR ''.'' \<and> hd ?rest' = CHR ''.'' \<and> (tl ?rest' = [] \<or> hd (tl ?rest') = CHR ''/'')) = True"
          using True e3 h by simp
        have cond: "(c = CHR ''.'' \<and> hd rest = CHR ''.'' \<and> (tl rest = [] \<or> hd (tl rest) = CHR ''/'')) = True"
          using True by simp
        have dot': "\<not> (c = CHR ''.'' \<and> (?rest' = [] \<or> hd ?rest' = CHR ''/''))"
          using dot e2 by simp
        have L: "Clean_loop rooted (c # ?rest') dotdot out =
            (if dotdot < length out then
               Clean_loop rooted (tl ?rest') dotdot (take (backtrack out dotdot (length out - 1)) out)
             else if \<not> rooted then
               (let out' = (if 0 < length out then out @ ''/'' else out) @ ''..''
                in Clean_loop rooted (tl ?rest') (length out') out')
             else Clean_loop rooted (tl ?rest') dotdot out)"
          by (subst Clean_loop.simps) (simp only: slash dot' cond' if_True if_False)
        have R: "Clean_loop rooted (c # rest) dotdot out =
            (if dotdot < length out then
               Clean_loop rooted (tl rest) dotdot (take (backtrack out dotdot (length out - 1)) out)
             else if \<not> rooted then
               (let out' = (if 0 < length out then out @ ''/'' else out) @ ''..''
                in Clean_loop rooted (tl rest) (length out') out')
             else Clean_loop rooted (tl rest) dotdot out)"
          by (subst Clean_loop.simps) (simp only: slash dot cond if_True if_False)
        show ?thesis
          unfolding unfold L R t
          using "2.IH"(3) [OF slash dot True] "2.IH"(4) [OF slash dot True] "2.IH"(5) [OF slash dot True]
          by (simp add: Let_def)
      next
        case elem: False
        have elem': "\<not> (c = CHR ''.'' \<and> hd ?rest' = CHR ''.'' \<and> (tl ?rest' = [] \<or> hd (tl ?rest') = CHR ''/''))"
        proof (cases rest)
          case Nil
          with dot show ?thesis by auto
        next
          case (Cons b rest2)
          with elem show ?thesis by (cases rest2) auto
        qed
        have dot': "\<not> (c = CHR ''.'' \<and> (?rest' = [] \<or> hd ?rest' = CHR ''/''))"
          using dot e2 by simp
        have L: "Clean_loop rooted (c # ?rest') dotdot out =
            (let out' = (if rooted \<and> length out \<noteq> 1 \<or> \<not> rooted \<and> length out \<noteq> 0
                     then out @ ''/'' else out)
             in Clean_loop rooted (dropWhile (\<lambda>b. b \<noteq> CHR ''/'') (c # ?rest')) dotdot
              (out' @ takeWhile (\<lambda>b. b \<noteq> CHR ''/'') (c # ?rest')))"
          by (subst Clean_loop.simps) (simp only: slash dot' elem' if_True if_False)
        have R: "Clean_loop rooted (c # rest) dotdot out =
            (let out' = (if rooted \<and> length out \<noteq> 1 \<or> \<not> rooted \<and> length out \<noteq> 0
                     then out @ ''/'' else out)
             in Clean_loop rooted (dropWhile (\<lambda>b. b \<noteq> CHR ''/'') (c # rest)) dotdot
              (out' @ takeWhile (\<lambda>b. b \<noteq> CHR ''/'') (c # rest)))"
          by (subst Clean_loop.simps) (simp only: slash dot elem if_True if_False)
        have tw: "takeWhile (\<lambda>b. b \<noteq> CHR ''/'') (c # ?rest') = takeWhile (\<lambda>b. b \<noteq> CHR ''/'') (c # rest)"
          using takeWhile_until_slash [of "c # rest" name] by simp
        have dw: "dropWhile (\<lambda>b. b \<noteq> CHR ''/'') (c # ?rest')
            = dropWhile (\<lambda>b. b \<noteq> CHR ''/'') (c # rest) @ CHR ''/'' # name"
          using dropWhile_until_slash [of "c # rest" name] by simp
        show ?thesis
          unfolding unfold L R tw dw
          using "2.IH"(6) [OF slash dot elem refl]
          by (simp add: Let_def)
      qed
    qed
  qed
qed

lemma backtrack_ge: "dotdot \<le> w \<Longrightarrow> dotdot \<le> backtrack out dotdot w"
proof (induction out dotdot w rule: backtrack.induct)
  case (1 out dotdot w)
  then show ?case by (subst backtrack.simps) auto
qed

lemma Clean_loop_rooted:
  assumes "rooted" and "out \<noteq> []" and "hd out = CHR ''/''" and "1 \<le> dotdot"
  shows "Clean_loop rooted p dotdot out \<noteq> [] \<and> hd (Clean_loop rooted p dotdot out) = CHR ''/''"
  using assms
proof (induction rooted p dotdot out rule: Clean_loop.induct)
  case (1 rooted dotdot out)
  then show ?case by simp
next
  case (2 rooted c rest dotdot out)
  have bt: "1 \<le> backtrack out dotdot (length out - 1)" if "dotdot < length out"
  proof -
    from that have "dotdot \<le> length out - 1" by simp
    then have "dotdot \<le> backtrack out dotdot (length out - 1)" by (rule backtrack_ge)
    with "2.prems"(4) show ?thesis by simp
  qed
  have tk: "dotdot < length out \<Longrightarrow>
      take (backtrack out dotdot (length out - 1)) out \<noteq> []
      \<and> hd (take (backtrack out dotdot (length out - 1)) out) = CHR ''/''"
    using bt "2.prems" by (cases out) (auto simp: take_Cons')
  show ?case
    using "2.IH" "2.prems" tk
    by (subst (1 2) Clean_loop.simps) (auto simp add: Let_def hd_append simp del: Clean_loop.simps)
qed

lemma path_Join_file:
  assumes "proper_name name"
  shows "\<exists>dir. path_Join [d, name] = dir @ name \<and> (dir = [] \<or> last dir = CHR ''/'')"
proof (cases "d = []")
  case True
  have "CHR ''/'' \<notin> set name" and "name \<noteq> []" using assms by (auto simp: proper_name_def)
  then have "hd name \<noteq> CHR ''/''" by (cases name) auto
  then have "path_Join [d, name] = name"
    using True \<open>name \<noteq> []\<close> by (simp add: path_Join_def path_Clean_def Clean_loop_name [OF assms])
  then show ?thesis by simp
next
  case False
  have n: "name \<noteq> []" using assms by (simp add: proper_name_def)
  have buf: "Join_buf [] [d, name] = d @ CHR ''/'' # name" using False by simp
  show ?thesis
  proof (cases "hd d = CHR ''/''")
    case True
    define out where "out = Clean_loop True (tl d) 1 ''/''"
    have o: "out \<noteq> [] \<and> hd out = CHR ''/''"
      unfolding out_def by (rule Clean_loop_rooted) simp_all
    have "path_Join [d, name] = (if length out \<noteq> 1 then out @ ''/'' else out) @ name"
      using False True n
      by (simp add: path_Join_def path_Clean_def buf hd_append Clean_loop_append_name [OF assms]
          Let_def out_def del: Join_buf.simps)
    moreover have "length out = 1 \<Longrightarrow> last out = CHR ''/''"
      using o by (cases out) auto
    ultimately show ?thesis by (cases "length out = 1") auto
  next
    case rel: False
    define out where "out = Clean_loop False d 0 []"
    have "path_Join [d, name] = (if length out \<noteq> 0 then out @ ''/'' else out) @ name"
      using False rel n
      by (simp add: path_Join_def path_Clean_def buf hd_append Clean_loop_append_name [OF assms]
          Let_def out_def del: Join_buf.simps)
    then show ?thesis by (cases "length out = 0") auto
  qed
qed

lemma proper_names:
  "proper_name ''alerts.pb''" "proper_name ''positions.pb''" "proper_name ''brigades.json''"
  "proper_name ''alerts.json''" "proper_name ''positions.json''"
  by (simp_all add: proper_name_def)

text \<open>
  What \<^verbatim>\<open>loadGtfs\<close> does after the retrieval has failed, and after it has succeeded.
\<close>

lemma loadGtfs_retrieval_failed:
  assumes "(if HasPrefix (flagGtfsFile f) ''http://'' \<or> HasPrefix (flagGtfsFile f) ''https://''
            then NewGtfsFromURL env (flagGtfsFile f)
            else NewGtfsFromFile env (flagGtfsFile f)) = (g, Some e)"
  shows "loadGtfs env f s =
     (Some e,
      \<lparr>gtfsFile = g,
       trace = trace s @
         [Log_Println ''Retrieving provided GTFS'',
          if HasPrefix (flagGtfsFile f) ''http://'' \<or> HasPrefix (flagGtfsFile f) ''https://''
          then Call_NewGtfsFromURL (flagGtfsFile f) else Call_NewGtfsFromFile (flagGtfsFile f)]\<rparr>)"
  using assms by (auto simp add: loadGtfs_def Let_def emit_def split: if_splits)

lemma loadGtfs_retrieved:
  assumes "(if HasPrefix (flagGtfsFile f) ''http://'' \<or> HasPrefix (flagGtfsFile f) ''https://''
            then NewGtfsFromURL env (flagGtfsFile f)
            else NewGtfsFromFile env (flagGtfsFile f)) = (g, None)"
  shows "loadGtfs env f s =
     (let s1 = \<lparr>gtfsFile = g,
                trace = trace s @
                  [Log_Println ''Retrieving provided GTFS'',
                   if HasPrefix (flagGtfsFile f) ''http://'' \<or> HasPrefix (flagGtfsFile f) ''https://''
                   then Call_NewGtfsFromURL (flagGtfsFile f)
                   else Call_NewGtfsFromFile (flagGtfsFile f)]\<rparr>
      in if flagAlerts f then
           (case GetZipFileByName env g ''routes.txt'' of
              None \<Rightarrow>
                (Some ''no file routes.txt in the GTFS'',
                 s1\<lparr>trace := trace s1 @
                   [Log_Println ''Loading routes.txt'', Call_GetZipFileByName ''routes.txt'']\<rparr>)
            | Some z \<Rightarrow>
                (snd (LoadRoutes env g z),
                 \<lparr>gtfsFile = fst (LoadRoutes env g z),
                  trace = trace s1 @
                   [Log_Println ''Loading routes.txt'', Call_GetZipFileByName ''routes.txt'',
                    Call_LoadRoutes]\<rparr>))
         else
           (snd (LoadAll env g),
            \<lparr>gtfsFile = fst (LoadAll env g),
             trace = trace s1 @ [Log_Println ''Loading data from the GTFS'', Call_LoadAll]\<rparr>))"
  using assms
  by (auto simp add: loadGtfs_def Let_def emit_def split: if_splits option.splits prod.splits)

lemma loadGtfs_retrieval_call:
  "filter is_retrieval_call (drop (length (trace s)) (trace (snd (loadGtfs env f s)))) =
     [if network_addressed (flagGtfsFile f)
      then Call_NewGtfsFromURL (flagGtfsFile f)
      else Call_NewGtfsFromFile (flagGtfsFile f)]"
proof -
  obtain g err where r:
    "(if network_addressed (flagGtfsFile f)
      then NewGtfsFromURL env (flagGtfsFile f)
      else NewGtfsFromFile env (flagGtfsFile f)) = (g, err)"
    by (cases "if network_addressed (flagGtfsFile f)
      then NewGtfsFromURL env (flagGtfsFile f)
      else NewGtfsFromFile env (flagGtfsFile f)") blast
  show ?thesis
  proof (cases err)
    case None
    with r show ?thesis
      by (simp add: loadGtfs_retrieved Let_def split: option.splits)
  next
    case (Some e)
    with r show ?thesis
      by (simp add: loadGtfs_retrieval_failed)
  qed
qed

text \<open>
  The functions on the alerts path never read the credential.
\<close>

lemma checkModes_apikey: "checkModes (f\<lparr>flagApikey := k\<rparr>) = checkModes f"
  by (simp add: checkModes_def)

lemma loadGtfs_apikey: "loadGtfs env (f\<lparr>flagApikey := k\<rparr>) s = loadGtfs env f s"
  by (simp add: loadGtfs_def Let_def cong: prod.case_cong option.case_cong if_cong)

lemma alerts_opts_apikey:
  "mainAlerts_opts (f\<lparr>flagApikey := k\<rparr>) = mainAlerts_opts f"
  "loopAlerts_opts (f\<lparr>flagApikey := k\<rparr>) = loopAlerts_opts f"
  "loopAlerts_resource (f\<lparr>flagApikey := k\<rparr>) = loopAlerts_resource f"
  by (simp_all add: mainAlerts_opts_def loopAlerts_opts_def loopAlerts_resource_def Let_def)

lemma mainAlerts_apikey: "mainAlerts env (f\<lparr>flagApikey := k\<rparr>) s = mainAlerts env f s"
  by (simp add: mainAlerts_def alerts_opts_apikey)

lemma loopAlerts_apikey: "loopAlerts env (f\<lparr>flagApikey := k\<rparr>) s = loopAlerts env f s"
  by (simp add: loopAlerts_def alerts_opts_apikey)

lemma main_alerts_apikey:
  "flagAlerts f \<Longrightarrow> main env (f\<lparr>flagApikey := k\<rparr>) s = main env f s"
  by (simp add: main_def Let_def checkModes_apikey loadGtfs_apikey mainAlerts_apikey
      loopAlerts_apikey cong: prod.case_cong option.case_cong if_cong)

text \<open>
  The whole run of the program when the positions flag is set.
\<close>

lemma main_positions:
  assumes "flagPostions f"
  shows "main env f s =
     (if flagAlerts f \<or> flagBrigades f then
        (Fatal ''exactly one of the -a, -b or -p flags has to be provided'', s)
      else if 0 <s flagLoop f then (Fatal ''loop mode is only available for alerts'', s)
      else if flagApikey f = [] then
        (Fatal ''Key for api.um.warszawa.pl needs to be provided'', s)
      else
        (case positions_Main env (mainPositions_opts f) of
           None \<Rightarrow> Exits_normally
         | Some e \<Rightarrow> Fatal e,
         s\<lparr>trace := trace s @
            [Log_Println ''Creating brigades.json'',
             Call_positions_Main (mainPositions_opts f)]\<rparr>))"
  using assms
  by (auto simp add: main_def checkModes_cases mainPositions_def Let_def emit_def
      split: option.splits)

text \<open>
  The observer reads the history event by event, a violation is never forgotten, and
  every step of the driver keeps the observer in the state that belongs to the
  driver's phase.
\<close>

lemma monitor_of_snoc: "monitor_of (h @ [e]) = observe (monitor_of h) e"
  by (simp add: monitor_of_def)

lemma observe_Violated: "foldl observe Violated h = Violated"
  by (induction h) simp_all

lemma monitor_of_append_Violated:
  "monitor_of h = Violated \<Longrightarrow> monitor_of (h @ h') = Violated"
  by (simp add: monitor_of_def observe_Violated)

lemma driver_step_agrees:
  assumes "monitor_of (history d) = expected_monitor (phase d) (cycle d)"
    and "phase d = Idle \<longrightarrow> cycle d = 0"
  shows "monitor_of (history (driver_step w d))
           = expected_monitor (phase (driver_step w d)) (cycle (driver_step w d))
         \<and> phase (driver_step w d) \<noteq> Idle"
  using assms
  by (cases "phase d")
     (simp_all add: driver_step_def record_event_def monitor_of_snoc split: check_result.splits)

lemma driver_run_agrees:
  assumes "monitor_of (history d) = expected_monitor (phase d) (cycle d)"
    and "phase d = Idle \<longrightarrow> cycle d = 0"
  shows "monitor_of (history (driver_run w n d))
           = expected_monitor (phase (driver_run w n d)) (cycle (driver_run w n d))"
  using assms
proof (induction n arbitrary: d)
  case 0
  then show ?case by simp
next
  case (Suc n)
  from driver_step_agrees [OF Suc.prems, of w]
  have "monitor_of (history (driver_step w d))
           = expected_monitor (phase (driver_step w d)) (cycle (driver_step w d))"
    and "phase (driver_step w d) = Idle \<longrightarrow> cycle (driver_step w d) = 0"
    by simp_all
  then show ?case using Suc.IH by simp
qed

lemma expected_monitor_not_Violated: "expected_monitor p n \<noteq> Violated"
  by (cases p) simp_all

text \<open>
  A run of the driver in which the content changes once, before the check of
  cycle 1.
\<close>

lemma driver_example:
  "history (driver_run example_world 12 driver_start) =
     [Check_begins 0, Check_ends 0, Check_begins 1, Check_ends 1,
      Regeneration_begins 1, Regeneration_ends 1, Check_begins 2, Check_ends 2,
      Check_begins 3, Check_ends 3]"
  by (simp add: numeral_nat driver_step_def driver_start_def record_event_def example_world_def)

subsection \<open>Mode selection and the loop cadence\<close>

text \<open>
  C1, as amended.  Whenever the loop cadence is strictly positive and exactly one of
  the brigades and positions flags is set, without the alerts flag, the program ends
  with the error \<^verbatim>\<open>loop mode is only available for alerts\<close> and the state is the
  one it started in: nothing was logged, no collaborator was called, and the dataset
  handle was not assigned.
\<close>

theorem loop_mode_only_for_alerts:
  assumes "0 <s flagLoop f" and "\<not> flagAlerts f" and "flagBrigades f \<noteq> flagPostions f"
  shows "main env f s = (Fatal ''loop mode is only available for alerts'', s)"
  using assms by (auto simp add: main_def checkModes_cases)

text \<open>
  C1, an instance: brigades mode with a loop cadence of one minute.
\<close>

theorem loop_mode_only_for_alerts_witness:
  "0 <s flagLoop (default_flags\<lparr>flagBrigades := True, flagLoop := 60000000000\<rparr>)
   \<and> main (example_collaborators True) (default_flags\<lparr>flagBrigades := True, flagLoop := 60000000000\<rparr>) start_state
       = (Fatal ''loop mode is only available for alerts'', start_state)"
  using loop_mode_only_for_alerts [of "default_flags\<lparr>flagBrigades := True, flagLoop := 60000000000\<rparr>"
      "example_collaborators True" start_state]
  by (simp add: default_flags_def word_sless_alt)

text \<open>
  C1 as stated, for every non-zero cadence, fails: a negative cadence is not zero, and
  the test \<^verbatim>\<open>*flagLoop > 0\<close> treats it as a one-shot run.  With \<^verbatim>\<open>-b -k key -loop -1ns\<close>
  the program fetches and loads the whole dataset, creates the brigades file and
  exits normally.
\<close>

theorem negative_loop_cadence_counterexample:
  "flagLoop (default_flags\<lparr>flagBrigades := True, flagApikey := ''key'', flagLoop := - 1\<rparr>) \<noteq> 0
   \<and> main (example_collaborators True)
        (default_flags\<lparr>flagBrigades := True, flagApikey := ''key'', flagLoop := - 1\<rparr>) start_state
      = (Exits_normally,
         \<lparr>gtfsFile = Some [''routes.txt'', ''trips.txt''],
          trace =
            [Log_Println ''Retrieving provided GTFS'',
             Call_NewGtfsFromURL ''https://mkuran.pl/gtfs/warsaw.zip'',
             Log_Println ''Loading data from the GTFS'', Call_LoadAll,
             Log_Println ''Creating brigades.json'',
             Call_brigades_Main
               \<lparr>brigades_Options.JSONTarget = ''data_rt/brigades.json'',
                brigades_Options.Apikey = ''key'', ThrowAPIErrors = False\<rparr>]\<rparr>)"
  by (simp add: default_flags_def main_def checkModes_cases word_sless_alt loadGtfs_def
      example_collaborators_def start_state_def emit_def HasPrefix_def mainBrigades_def
      mainBrigades_opts_def path_Join_def path_Clean_def)

text \<open>
  C2.  \<^verbatim>\<open>checkModes\<close> returns an error exactly when the number of mode flags that are
  set differs from one, and \<^verbatim>\<open>nil\<close> when exactly one is set.  It is a function of
  the flags alone and returns nothing but the error; when it fails, the program ends
  with that error in the state it started in.
\<close>

theorem checkModes_exactly_one:
  "(checkModes f \<noteq> None) =
     (length (filter (\<lambda>b. b) [flagAlerts f, flagBrigades f, flagPostions f]) \<noteq> 1)
   \<and> checkModes f =
     (if length (filter (\<lambda>b. b) [flagAlerts f, flagBrigades f, flagPostions f]) = 1 then None
      else Some ''exactly one of the -a, -b or -p flags has to be provided'')
   \<and> (checkModes f \<noteq> None \<longrightarrow>
        main env f s = (Fatal ''exactly one of the -a, -b or -p flags has to be provided'', s))"
  by (simp add: checkModes_cases main_def)

text \<open>
  C2, an instance: both the alerts and the positions flag are set.
\<close>

theorem checkModes_exactly_one_witness:
  "checkModes (default_flags\<lparr>flagAlerts := True, flagPostions := True\<rparr>) \<noteq> None
   \<and> main (example_collaborators True) (default_flags\<lparr>flagAlerts := True, flagPostions := True\<rparr>) start_state
       = (Fatal ''exactly one of the -a, -b or -p flags has to be provided'', start_state)"
  using checkModes_exactly_one [of "default_flags\<lparr>flagAlerts := True, flagPostions := True\<rparr>"
      "example_collaborators True" start_state]
  by (simp add: default_flags_def)

subsection \<open>Output paths and options\<close>

lemmas opts_defs =
  Let_def mainAlerts_opts_def loopAlerts_opts_def mainBrigades_opts_def mainPositions_opts_def

text \<open>
  C3, as amended.  The primary feed path of the alerts and positions modes is
  \<^verbatim>\<open>path.Join(target, "alerts.pb")\<close> and \<^verbatim>\<open>path.Join(target, "positions.pb")\<close>: a
  file with that name, alone or right after a slash, whose extension is \<^verbatim>\<open>.pb\<close>
  whatever the human-readable flag is; the flag is handed on in the field
  \<^verbatim>\<open>HumanReadable\<close>.  Brigades mode builds only the path of \<^verbatim>\<open>brigades.json\<close>.
\<close>

theorem feed_paths:
  "alerts_Options.GtfsRtTarget (mainAlerts_opts f) = path_Join [flagTarget f, ''alerts.pb'']
   \<and> alerts_Options.GtfsRtTarget (loopAlerts_opts f) = path_Join [flagTarget f, ''alerts.pb'']
   \<and> positions_Options.GtfsRtTarget (mainPositions_opts f) = path_Join [flagTarget f, ''positions.pb'']
   \<and> (\<exists>dir. alerts_Options.GtfsRtTarget (mainAlerts_opts f) = dir @ ''alerts.pb''
          \<and> (dir = [] \<or> last dir = CHR ''/''))
   \<and> (\<exists>dir. alerts_Options.GtfsRtTarget (loopAlerts_opts f) = dir @ ''alerts.pb''
          \<and> (dir = [] \<or> last dir = CHR ''/''))
   \<and> (\<exists>dir. positions_Options.GtfsRtTarget (mainPositions_opts f) = dir @ ''positions.pb''
          \<and> (dir = [] \<or> last dir = CHR ''/''))
   \<and> alerts_Options.GtfsRtTarget (mainAlerts_opts (f\<lparr>flagReadable := r\<rparr>))
       = alerts_Options.GtfsRtTarget (mainAlerts_opts f)
   \<and> alerts_Options.GtfsRtTarget (loopAlerts_opts (f\<lparr>flagReadable := r\<rparr>))
       = alerts_Options.GtfsRtTarget (loopAlerts_opts f)
   \<and> positions_Options.GtfsRtTarget (mainPositions_opts (f\<lparr>flagReadable := r\<rparr>))
       = positions_Options.GtfsRtTarget (mainPositions_opts f)
   \<and> alerts_Options.HumanReadable (mainAlerts_opts f) = flagReadable f
   \<and> alerts_Options.HumanReadable (loopAlerts_opts f) = flagReadable f
   \<and> positions_Options.HumanReadable (mainPositions_opts f) = flagReadable f
   \<and> mainBrigades_opts f =
       \<lparr>brigades_Options.JSONTarget = path_Join [flagTarget f, ''brigades.json''],
        brigades_Options.Apikey = flagApikey f, ThrowAPIErrors = flagStrict f\<rparr>
   \<and> (\<exists>dir. brigades_Options.JSONTarget (mainBrigades_opts f) = dir @ ''brigades.json''
          \<and> (dir = [] \<or> last dir = CHR ''/''))"
proof -
  have a: "alerts_Options.GtfsRtTarget (mainAlerts_opts f) = path_Join [flagTarget f, ''alerts.pb'']"
    and l: "alerts_Options.GtfsRtTarget (loopAlerts_opts f) = path_Join [flagTarget f, ''alerts.pb'']"
    and p: "positions_Options.GtfsRtTarget (mainPositions_opts f)
        = path_Join [flagTarget f, ''positions.pb'']"
    and b: "brigades_Options.JSONTarget (mainBrigades_opts f)
        = path_Join [flagTarget f, ''brigades.json'']"
    by (simp_all add: opts_defs)
  have "\<exists>dir. alerts_Options.GtfsRtTarget (mainAlerts_opts f) = dir @ ''alerts.pb''
          \<and> (dir = [] \<or> last dir = CHR ''/'')"
    unfolding a by (rule path_Join_file) (rule proper_names)
  moreover have "\<exists>dir. alerts_Options.GtfsRtTarget (loopAlerts_opts f) = dir @ ''alerts.pb''
          \<and> (dir = [] \<or> last dir = CHR ''/'')"
    unfolding l by (rule path_Join_file) (rule proper_names)
  moreover have "\<exists>dir. positions_Options.GtfsRtTarget (mainPositions_opts f) = dir @ ''positions.pb''
          \<and> (dir = [] \<or> last dir = CHR ''/'')"
    unfolding p by (rule path_Join_file) (rule proper_names)
  moreover have "\<exists>dir. brigades_Options.JSONTarget (mainBrigades_opts f) = dir @ ''brigades.json''
          \<and> (dir = [] \<or> last dir = CHR ''/'')"
    unfolding b by (rule path_Join_file) (rule proper_names)
  moreover have "alerts_Options.GtfsRtTarget (mainAlerts_opts (f\<lparr>flagReadable := r\<rparr>))
       = alerts_Options.GtfsRtTarget (mainAlerts_opts f)"
    and "alerts_Options.GtfsRtTarget (loopAlerts_opts (f\<lparr>flagReadable := r\<rparr>))
       = alerts_Options.GtfsRtTarget (loopAlerts_opts f)"
    and "positions_Options.GtfsRtTarget (mainPositions_opts (f\<lparr>flagReadable := r\<rparr>))
       = positions_Options.GtfsRtTarget (mainPositions_opts f)"
    and "alerts_Options.HumanReadable (mainAlerts_opts f) = flagReadable f"
    and "alerts_Options.HumanReadable (loopAlerts_opts f) = flagReadable f"
    and "positions_Options.HumanReadable (mainPositions_opts f) = flagReadable f"
    and "mainBrigades_opts f =
       \<lparr>brigades_Options.JSONTarget = path_Join [flagTarget f, ''brigades.json''],
        brigades_Options.Apikey = flagApikey f, ThrowAPIErrors = flagStrict f\<rparr>"
    by (simp_all add: opts_defs)
  ultimately show ?thesis using a l p by blast
qed

text \<open>
  C3 as stated fails: the extension of the primary feed file does not depend on the
  format flag.  With the default target directory both formats are written to
  \<^verbatim>\<open>data_rt/alerts.pb\<close>, and both to \<^verbatim>\<open>data_rt/positions.pb\<close>.
\<close>

theorem feed_extension_counterexample:
  "alerts_Options.GtfsRtTarget (mainAlerts_opts (default_flags\<lparr>flagAlerts := True, flagReadable := False\<rparr>))
     = ''data_rt/alerts.pb''
   \<and> alerts_Options.GtfsRtTarget (mainAlerts_opts (default_flags\<lparr>flagAlerts := True, flagReadable := True\<rparr>))
     = ''data_rt/alerts.pb''
   \<and> positions_Options.GtfsRtTarget (mainPositions_opts (default_flags\<lparr>flagPostions := True, flagReadable := False\<rparr>))
     = ''data_rt/positions.pb''
   \<and> positions_Options.GtfsRtTarget (mainPositions_opts (default_flags\<lparr>flagPostions := True, flagReadable := True\<rparr>))
     = ''data_rt/positions.pb''"
  by (simp add: opts_defs default_flags_def path_Join_def path_Clean_def)

text \<open>
  C8.  The options structures are functions of the configuration alone, and only of
  the target directory, the format flag, the auxiliary-JSON flag, the strict flag,
  the credential and the input locations: two configurations that agree on these
  yield equal structures on every path, whatever their mode flags and cadences.
\<close>

theorem options_deterministic:
  assumes "flagTarget f1 = flagTarget f2" and "flagReadable f1 = flagReadable f2"
    and "flagJSON f1 = flagJSON f2" and "flagStrict f1 = flagStrict f2"
    and "flagApikey f1 = flagApikey f2" and "flagGtfsFile f1 = flagGtfsFile f2"
    and "flagBrigadesFile f1 = flagBrigadesFile f2"
  shows "mainAlerts_opts f1 = mainAlerts_opts f2
    \<and> loopAlerts_opts f1 = loopAlerts_opts f2
    \<and> mainBrigades_opts f1 = mainBrigades_opts f2
    \<and> mainPositions_opts f1 = mainPositions_opts f2"
  using assms by (simp add: opts_defs)

text \<open>
  C8, an instance: an alerts configuration and a brigades configuration with a loop
  cadence and another recheck period get the same options.
\<close>

theorem options_deterministic_witness:
  "flagTarget (default_flags\<lparr>flagAlerts := True, flagJSON := True\<rparr>)
     = flagTarget (default_flags\<lparr>flagBrigades := True, flagJSON := True, flagLoop := 5, flagDataCheck := 7\<rparr>)
   \<and> mainAlerts_opts (default_flags\<lparr>flagAlerts := True, flagJSON := True\<rparr>)
     = mainAlerts_opts (default_flags\<lparr>flagBrigades := True, flagJSON := True, flagLoop := 5, flagDataCheck := 7\<rparr>)
   \<and> mainAlerts_opts (default_flags\<lparr>flagAlerts := True, flagJSON := True\<rparr>)
     = \<lparr>alerts_Options.GtfsRtTarget = ''data_rt/alerts.pb'',
        alerts_Options.JSONTarget = ''data_rt/alerts.json'',
        alerts_Options.HumanReadable = False, ThrowLinkErrors = False\<rparr>"
  using options_deterministic
    [of "default_flags\<lparr>flagAlerts := True, flagJSON := True\<rparr>"
        "default_flags\<lparr>flagBrigades := True, flagJSON := True, flagLoop := 5, flagDataCheck := 7\<rparr>"]
  by (simp add: default_flags_def mainAlerts_opts_def path_Join_def path_Clean_def)

text \<open>
  C10.  The options structure of the one-shot alerts path and that of the loop path
  are equal, field for field, and they are the structures handed to \<^verbatim>\<open>alerts.Make\<close>
  and to \<^verbatim>\<open>alerts.Loop\<close>.
\<close>

theorem alerts_options_agree:
  "mainAlerts_opts f = loopAlerts_opts f
   \<and> alerts_Options.GtfsRtTarget (mainAlerts_opts f) = alerts_Options.GtfsRtTarget (loopAlerts_opts f)
   \<and> alerts_Options.HumanReadable (mainAlerts_opts f) = alerts_Options.HumanReadable (loopAlerts_opts f)
   \<and> ThrowLinkErrors (mainAlerts_opts f) = ThrowLinkErrors (loopAlerts_opts f)
   \<and> alerts_Options.JSONTarget (mainAlerts_opts f) = alerts_Options.JSONTarget (loopAlerts_opts f)
   \<and> trace (snd (mainAlerts env f (s\<lparr>gtfsFile := Some g\<rparr>)))
       = trace s @ [Log_Println ''Creating Alerts feed'', Call_alerts_Make (mainAlerts_opts f)]
   \<and> trace (snd (loopAlerts env f s))
       = trace s @ [Call_alerts_Loop (loopAlerts_resource f) (flagLoop f) (loopAlerts_opts f)]"
proof -
  have "mainAlerts_opts f = loopAlerts_opts f"
    by (simp add: mainAlerts_opts_def loopAlerts_opts_def)
  then show ?thesis
    by (simp add: mainAlerts_def loopAlerts_def emit_def Let_def)
qed

subsection \<open>Loading the static dataset\<close>

text \<open>
  C4.  Once the dataset container has been retrieved, \<^verbatim>\<open>loadGtfs\<close> with the alerts
  flag looks up \<^verbatim>\<open>routes.txt\<close> only: when the file is absent it returns the error
  \<^verbatim>\<open>no file routes.txt in the GTFS\<close> and loads nothing, when it is present it calls
  \<^verbatim>\<open>LoadRoutes\<close> and nothing else.  Without the alerts flag it calls \<^verbatim>\<open>LoadAll\<close>.
\<close>

theorem loadGtfs_routes_only_for_alerts:
  assumes "(if network_addressed (flagGtfsFile f)
            then NewGtfsFromURL env (flagGtfsFile f)
            else NewGtfsFromFile env (flagGtfsFile f)) = (g, None)"
  shows "(flagAlerts f \<and> GetZipFileByName env g ''routes.txt'' = None \<longrightarrow>
            loadGtfs env f s =
              (Some ''no file routes.txt in the GTFS'',
               \<lparr>gtfsFile = g,
                trace = trace s @
                  [Log_Println ''Retrieving provided GTFS'',
                   if network_addressed (flagGtfsFile f)
                   then Call_NewGtfsFromURL (flagGtfsFile f)
                   else Call_NewGtfsFromFile (flagGtfsFile f),
                   Log_Println ''Loading routes.txt'',
                   Call_GetZipFileByName ''routes.txt'']\<rparr>))
       \<and> (flagAlerts f \<and> GetZipFileByName env g ''routes.txt'' = Some z \<longrightarrow>
            loadGtfs env f s =
              (snd (LoadRoutes env g z),
               \<lparr>gtfsFile = fst (LoadRoutes env g z),
                trace = trace s @
                  [Log_Println ''Retrieving provided GTFS'',
                   if network_addressed (flagGtfsFile f)
                   then Call_NewGtfsFromURL (flagGtfsFile f)
                   else Call_NewGtfsFromFile (flagGtfsFile f),
                   Log_Println ''Loading routes.txt'',
                   Call_GetZipFileByName ''routes.txt'',
                   Call_LoadRoutes]\<rparr>))
       \<and> (\<not> flagAlerts f \<longrightarrow>
            loadGtfs env f s =
              (snd (LoadAll env g),
               \<lparr>gtfsFile = fst (LoadAll env g),
                trace = trace s @
                  [Log_Println ''Retrieving provided GTFS'',
                   if network_addressed (flagGtfsFile f)
                   then Call_NewGtfsFromURL (flagGtfsFile f)
                   else Call_NewGtfsFromFile (flagGtfsFile f),
                   Log_Println ''Loading data from the GTFS'',
                   Call_LoadAll]\<rparr>))"
  by (simp add: loadGtfs_retrieved [OF assms] Let_def)

text \<open>
  C4, three instances: alerts with an archive without \<^verbatim>\<open>routes.txt\<close>, alerts with a
  complete archive, and brigades.
\<close>

theorem loadGtfs_routes_only_for_alerts_witness:
  "loadGtfs (example_collaborators False) (default_flags\<lparr>flagAlerts := True\<rparr>) start_state =
     (Some ''no file routes.txt in the GTFS'',
      \<lparr>gtfsFile = Some [],
       trace =
         [Log_Println ''Retrieving provided GTFS'',
          Call_NewGtfsFromURL ''https://mkuran.pl/gtfs/warsaw.zip'',
          Log_Println ''Loading routes.txt'',
          Call_GetZipFileByName ''routes.txt'']\<rparr>)
   \<and> loadGtfs (example_collaborators True) (default_flags\<lparr>flagAlerts := True\<rparr>) start_state =
     (None,
      \<lparr>gtfsFile = Some [''routes.txt''],
       trace =
         [Log_Println ''Retrieving provided GTFS'',
          Call_NewGtfsFromURL ''https://mkuran.pl/gtfs/warsaw.zip'',
          Log_Println ''Loading routes.txt'',
          Call_GetZipFileByName ''routes.txt'',
          Call_LoadRoutes]\<rparr>)
   \<and> loadGtfs (example_collaborators True) (default_flags\<lparr>flagBrigades := True\<rparr>) start_state =
     (None,
      \<lparr>gtfsFile = Some [''routes.txt'', ''trips.txt''],
       trace =
         [Log_Println ''Retrieving provided GTFS'',
          Call_NewGtfsFromURL ''https://mkuran.pl/gtfs/warsaw.zip'',
          Log_Println ''Loading data from the GTFS'',
          Call_LoadAll]\<rparr>)"
proof -
  have net: "network_addressed ''https://mkuran.pl/gtfs/warsaw.zip''"
    by (simp add: HasPrefix_def)
  have absent:
    "(if network_addressed (flagGtfsFile (default_flags\<lparr>flagAlerts := True\<rparr>))
      then NewGtfsFromURL (example_collaborators False) (flagGtfsFile (default_flags\<lparr>flagAlerts := True\<rparr>))
      else NewGtfsFromFile (example_collaborators False) (flagGtfsFile (default_flags\<lparr>flagAlerts := True\<rparr>)))
     = (Some [], None)"
    using net by (simp add: default_flags_def example_collaborators_def)
  have present:
    "(if network_addressed (flagGtfsFile (default_flags\<lparr>flagAlerts := True\<rparr>))
      then NewGtfsFromURL (example_collaborators True) (flagGtfsFile (default_flags\<lparr>flagAlerts := True\<rparr>))
      else NewGtfsFromFile (example_collaborators True) (flagGtfsFile (default_flags\<lparr>flagAlerts := True\<rparr>)))
     = (Some [], None)"
    using net by (simp add: default_flags_def example_collaborators_def)
  have brigades:
    "(if network_addressed (flagGtfsFile (default_flags\<lparr>flagBrigades := True\<rparr>))
      then NewGtfsFromURL (example_collaborators True) (flagGtfsFile (default_flags\<lparr>flagBrigades := True\<rparr>))
      else NewGtfsFromFile (example_collaborators True) (flagGtfsFile (default_flags\<lparr>flagBrigades := True\<rparr>)))
     = (Some [], None)"
    using net by (simp add: default_flags_def example_collaborators_def)
  show ?thesis
    using net
      loadGtfs_routes_only_for_alerts [OF absent, of start_state]
      loadGtfs_routes_only_for_alerts [OF present, where z = "''routes.txt''" and s = start_state]
      loadGtfs_routes_only_for_alerts [OF brigades, of start_state]
    by (simp add: default_flags_def example_collaborators_def start_state_def)
qed

text \<open>
  C5.  With the positions flag set the program never touches the static dataset: the
  run is one of four outcomes, none of which calls \<^verbatim>\<open>loadGtfs\<close>; the dataset handle
  is the one the run started with; no call that fetches or loads the dataset is made;
  the outcome depends neither on the handle nor on the dataset location; and
  \<^verbatim>\<open>positions.Main\<close> is given the options only, with the location of the brigades
  file in them.
\<close>

theorem positions_never_loads_dataset:
  assumes "flagPostions f"
  shows "main env f s =
     (if flagAlerts f \<or> flagBrigades f then
        (Fatal ''exactly one of the -a, -b or -p flags has to be provided'', s)
      else if 0 <s flagLoop f then (Fatal ''loop mode is only available for alerts'', s)
      else if flagApikey f = [] then
        (Fatal ''Key for api.um.warszawa.pl needs to be provided'', s)
      else
        (case positions_Main env (mainPositions_opts f) of
           None \<Rightarrow> Exits_normally
         | Some e \<Rightarrow> Fatal e,
         s\<lparr>trace := trace s @
            [Log_Println ''Creating brigades.json'',
             Call_positions_Main (mainPositions_opts f)]\<rparr>))
    \<and> gtfsFile (snd (main env f s)) = gtfsFile s
    \<and> filter is_dataset_call (drop (length (trace s)) (trace (snd (main env f s)))) = []
    \<and> main env f (s\<lparr>gtfsFile := h\<rparr>) = (fst (main env f s), (snd (main env f s))\<lparr>gtfsFile := h\<rparr>)
    \<and> main env (f\<lparr>flagGtfsFile := l\<rparr>) s = main env f s
    \<and> Brigades (mainPositions_opts f) = flagBrigadesFile f"
proof -
  have opts: "mainPositions_opts (f\<lparr>flagGtfsFile := l\<rparr>) = mainPositions_opts f"
    by (simp add: mainPositions_opts_def Let_def)
  have p: "flagPostions (f\<lparr>flagGtfsFile := l\<rparr>)" using assms by simp
  have "gtfsFile (snd (main env f s)) = gtfsFile s"
    by (simp add: main_positions [OF assms])
  moreover have "filter is_dataset_call (drop (length (trace s)) (trace (snd (main env f s)))) = []"
    by (simp add: main_positions [OF assms])
  moreover have "main env f (s\<lparr>gtfsFile := h\<rparr>)
      = (fst (main env f s), (snd (main env f s))\<lparr>gtfsFile := h\<rparr>)"
    by (simp add: main_positions [OF assms])
  moreover have "main env (f\<lparr>flagGtfsFile := l\<rparr>) s = main env f s"
    by (simp add: main_positions [OF assms] main_positions [OF p] opts)
  moreover have "Brigades (mainPositions_opts f) = flagBrigadesFile f"
    by (simp add: mainPositions_opts_def Let_def)
  ultimately show ?thesis using main_positions [OF assms, of env s] by blast
qed

text \<open>
  C5, an instance: positions mode with a credential.
\<close>

theorem positions_never_loads_dataset_witness:
  "flagPostions (default_flags\<lparr>flagPostions := True, flagApikey := ''key''\<rparr>)
   \<and> main (example_collaborators True) (default_flags\<lparr>flagPostions := True, flagApikey := ''key''\<rparr>)
        start_state =
      (Exits_normally,
       \<lparr>gtfsFile = None,
        trace =
          [Log_Println ''Creating brigades.json'',
           Call_positions_Main
             \<lparr>positions_Options.GtfsRtTarget = ''data_rt/positions.pb'',
              positions_Options.JSONTarget = [],
              positions_Options.HumanReadable = False,
              positions_Options.Apikey = ''key'',
              Brigades = ''https://mkuran.pl/gtfs/warsaw/brigades.json''\<rparr>]\<rparr>)"
proof -
  have h: "flagPostions (default_flags\<lparr>flagPostions := True, flagApikey := ''key''\<rparr>)"
    by simp
  show ?thesis
    using positions_never_loads_dataset
      [OF h, where env = "example_collaborators True" and s = start_state, THEN conjunct1]
    by (simp add: default_flags_def example_collaborators_def start_state_def
        mainPositions_opts_def path_Join_def path_Clean_def word_sless_alt)
qed

text \<open>
  C7.  The test the program makes on a location holds exactly when the location
  starts with \<^verbatim>\<open>http://\<close> or \<^verbatim>\<open>https://\<close>.  The one retrieval call of
  \<^verbatim>\<open>loadGtfs\<close> is \<^verbatim>\<open>NewGtfsFromURL\<close> then and \<^verbatim>\<open>NewGtfsFromFile\<close> otherwise; the
  resource \<^verbatim>\<open>loopAlerts\<close> builds is a \<^verbatim>\<open>ResourceHTTP\<close> then and a
  \<^verbatim>\<open>ResourceLocal\<close> otherwise, and that value is the one given to \<^verbatim>\<open>alerts.Loop\<close>.
\<close>

theorem location_classification:
  "network_addressed l = (prefix ''http://'' l \<or> prefix ''https://'' l)
   \<and> filter is_retrieval_call (drop (length (trace s)) (trace (snd (loadGtfs env f s)))) =
       [if prefix ''http://'' (flagGtfsFile f) \<or> prefix ''https://'' (flagGtfsFile f)
        then Call_NewGtfsFromURL (flagGtfsFile f)
        else Call_NewGtfsFromFile (flagGtfsFile f)]
   \<and> loopAlerts_resource f =
       (if prefix ''http://'' (flagGtfsFile f) \<or> prefix ''https://'' (flagGtfsFile f)
        then ResourceHTTP (flagGtfsFile f) (flagDataCheck f)
        else ResourceLocal (flagGtfsFile f) (flagDataCheck f))
   \<and> trace (snd (loopAlerts env f s)) =
       trace s @ [Call_alerts_Loop (loopAlerts_resource f) (flagLoop f) (loopAlerts_opts f)]"
  by (simp add: loadGtfs_retrieval_call loopAlerts_resource_def loopAlerts_def emit_def
      HasPrefix_iff_prefix Let_def)

subsection \<open>The credential\<close>

text \<open>
  C6.  With an empty credential \<^verbatim>\<open>mainBrigades\<close> and \<^verbatim>\<open>mainPositions\<close> return the
  missing-credential error and leave the state as it was, so the generation is not
  called.  Nothing on the alerts path reads the credential: \<^verbatim>\<open>mainAlerts\<close>,
  \<^verbatim>\<open>loopAlerts\<close>, \<^verbatim>\<open>loadGtfs\<close> and, with the alerts flag set, the whole program do
  the same with any credential.
\<close>

theorem missing_credential:
  "(flagApikey f = [] \<longrightarrow>
      mainBrigades env f s = (Returns (Some ''Key for api.um.warszawa.pl needs to be provided''), s)
      \<and> mainPositions env f s = (Returns (Some ''Key for api.um.warszawa.pl needs to be provided''), s))
   \<and> mainAlerts env (f\<lparr>flagApikey := k\<rparr>) s = mainAlerts env f s
   \<and> loopAlerts env (f\<lparr>flagApikey := k\<rparr>) s = loopAlerts env f s
   \<and> loadGtfs env (f\<lparr>flagApikey := k\<rparr>) s = loadGtfs env f s
   \<and> (flagAlerts f \<longrightarrow> main env (f\<lparr>flagApikey := k\<rparr>) s = main env f s)"
  by (simp add: mainBrigades_def mainPositions_def mainAlerts_apikey loopAlerts_apikey
      loadGtfs_apikey main_alerts_apikey)

text \<open>
  C6, two instances: brigades and positions without a credential, and alerts with
  and without one.
\<close>

theorem missing_credential_witness:
  "flagApikey default_flags = []
   \<and> mainBrigades (example_collaborators True) default_flags start_state
       = (Returns (Some ''Key for api.um.warszawa.pl needs to be provided''), start_state)
   \<and> mainPositions (example_collaborators True) default_flags start_state
       = (Returns (Some ''Key for api.um.warszawa.pl needs to be provided''), start_state)
   \<and> flagAlerts (default_flags\<lparr>flagAlerts := True\<rparr>)
   \<and> main (example_collaborators True) (default_flags\<lparr>flagAlerts := True, flagApikey := ''key''\<rparr>)
        start_state
       = main (example_collaborators True) (default_flags\<lparr>flagAlerts := True\<rparr>) start_state"
proof -
  have e: "flagApikey default_flags = []" by (simp add: default_flags_def)
  have a: "flagAlerts (default_flags\<lparr>flagAlerts := True\<rparr>)" by simp
  from missing_credential
    [where f = default_flags and env = "example_collaborators True" and s = start_state
      and k = "''key''", THEN conjunct1]
  have "mainBrigades (example_collaborators True) default_flags start_state
       = (Returns (Some ''Key for api.um.warszawa.pl needs to be provided''), start_state)
     \<and> mainPositions (example_collaborators True) default_flags start_state
       = (Returns (Some ''Key for api.um.warszawa.pl needs to be provided''), start_state)"
    using e by blast
  moreover from missing_credential
    [where f = "default_flags\<lparr>flagAlerts := True\<rparr>" and env = "example_collaborators True"
      and s = start_state and k = "''key''"]
  have "main (example_collaborators True) (default_flags\<lparr>flagAlerts := True, flagApikey := ''key''\<rparr>)
        start_state
       = main (example_collaborators True) (default_flags\<lparr>flagAlerts := True\<rparr>) start_state"
    using a by simp
  ultimately show ?thesis using e a by blast
qed

subsection \<open>The cycles of the loop\<close>

text \<open>
  C9.  After any number of steps of the loop driver, for any answers of the resource
  and any outcomes of the regenerations, the observer of the recorded history is in
  the state that belongs to the driver's phase and has seen no violation, and neither
  has it on any earlier part of the history: a check begins only when no check and no
  regeneration is open, a regeneration only when the check of its cycle has ended,
  and the cycles come in order.
\<close>

theorem cycles_never_overlap:
  "monitor_of (history (driver_run w n driver_start))
     = expected_monitor (phase (driver_run w n driver_start)) (cycle (driver_run w n driver_start))
   \<and> monitor_of (history (driver_run w n driver_start)) \<noteq> Violated
   \<and> (\<forall>k. monitor_of (take k (history (driver_run w n driver_start))) \<noteq> Violated)"
proof -
  let ?d = "driver_run w n driver_start"
  have a: "monitor_of (history ?d) = expected_monitor (phase ?d) (cycle ?d)"
    by (rule driver_run_agrees) (simp_all add: driver_start_def monitor_of_def)
  then have b: "monitor_of (history ?d) \<noteq> Violated"
    by (simp add: expected_monitor_not_Violated)
  have "monitor_of (take k (history ?d)) \<noteq> Violated" for k
  proof
    assume "monitor_of (take k (history ?d)) = Violated"
    then have "monitor_of (take k (history ?d) @ drop k (history ?d)) = Violated"
      by (rule monitor_of_append_Violated)
    with b show False by simp
  qed
  with a b show ?thesis by blast
qed

end
